theory Spec2Isabelle
  imports Complex_Main
begin

section \<open>Values of the data frame\<close>

text \<open>
  The program of \<^verbatim>\<open>main.py\<close> works on a pandas data frame of daily price bars. A numeric
  cell is a float; here it is a real number, or \<open>None\<close> for the float NaN (the missing
  value of pandas). Rounding of floats is not modelled: arithmetic is exact. NaN keeps the
  behaviour the program depends on: every arithmetic operation with NaN gives NaN and every
  comparison with NaN is false.
\<close>

type_synonym cell = "real option"

fun cell_add :: "cell \<Rightarrow> cell \<Rightarrow> cell" where
  "cell_add (Some x) (Some y) = Some (x + y)"
| "cell_add _ _ = None"

fun cell_sub :: "cell \<Rightarrow> cell \<Rightarrow> cell" where
  "cell_sub (Some x) (Some y) = Some (x - y)"
| "cell_sub _ _ = None"

fun cell_lt :: "cell \<Rightarrow> cell \<Rightarrow> bool" where
  "cell_lt (Some x) (Some y) = (x < y)"
| "cell_lt _ _ = False"

fun cell_gt :: "cell \<Rightarrow> cell \<Rightarrow> bool" where
  "cell_gt (Some x) (Some y) = (x > y)"
| "cell_gt _ _ = False"


text \<open>
  A timestamp is an instant (an integer number of milliseconds), or \<open>None\<close> for pandas'
  NaT. The comparison \<^verbatim>\<open>==\<close> of two timestamps is false as soon as one of them is NaT.
\<close>

type_synonym tstamp = "int option"

fun ts_eq :: "tstamp \<Rightarrow> tstamp \<Rightarrow> bool" where
  "ts_eq (Some a) (Some b) = (a = b)"
| "ts_eq _ _ = False"

fun ts_lt :: "tstamp \<Rightarrow> tstamp \<Rightarrow> bool" where
  "ts_lt (Some a) (Some b) = (a < b)"
| "ts_lt _ _ = False"

datatype py_error = KeyError | ValueError | DataError | ZeroDivisionError

section \<open>The data frame\<close>

text \<open>
  \<^verbatim>\<open>fetch_ohlcv\<close> returns a frame with the six columns timestamp, open, high, low, close
  and volume: one \<open>bar\<close> per row. \<^verbatim>\<open>main\<close> and \<^verbatim>\<open>generate_signals\<close> later add the columns
  \<^verbatim>\<open>SMA_10\<close>, \<^verbatim>\<open>SMA_20\<close> and \<^verbatim>\<open>signal\<close> to it; a column that has not been added is \<open>None\<close>.
\<close>

record bar =
  timestamp :: tstamp
  open_col :: cell
  high :: cell
  low :: cell
  close :: cell
  volume :: cell

record frame =
  bars :: "bar list"
  SMA_10 :: "cell list option"
  SMA_20 :: "cell list option"
  signal :: "int list option"



text \<open>
  The Bar Series of the specification: timestamps are present and strictly increasing.
\<close>

definition strictly_increasing :: "tstamp list \<Rightarrow> bool" where
  "strictly_increasing tss = (None \<notin> set tss \<and> sorted_wrt ts_lt tss)"

section \<open>The backtest: \<^verbatim>\<open>simulate_trading\<close>\<close>

text \<open>
  The three local variables of \<^verbatim>\<open>simulate_trading\<close>. \<open>position\<close> is 0 (no position),
  1 (long) or -1 (short).
\<close>

record sim_state =
  balance :: cell
  position :: int
  entry_price :: cell

text \<open>
  What \<^verbatim>\<open>df.iterrows()\<close> gives for one row, restricted to the three entries the loop
  reads. \<open>r_signal\<close> is \<open>None\<close> when the frame has no \<^verbatim>\<open>signal\<close> column: reading
  \<^verbatim>\<open>row['signal']\<close> then raises \<^verbatim>\<open>KeyError\<close>.
\<close>

record row =
  r_timestamp :: tstamp
  r_close :: cell
  r_signal :: "int option"

definition iterrows :: "frame \<Rightarrow> row list" where
  "iterrows df =
     map (\<lambda>i. \<lparr> r_timestamp = timestamp (bars df ! i),
                r_close = close (bars df ! i),
                r_signal = (case signal df of None \<Rightarrow> None | Some sg \<Rightarrow> Some (sg ! i)) \<rparr>)
         [0 ..< length (bars df)]"

text \<open>Line 123: \<^verbatim>\<open>is_last_day = row['timestamp'] == df['timestamp'].iloc[-1]\<close>.\<close>

definition is_last_day :: "tstamp list \<Rightarrow> row \<Rightarrow> bool" where
  "is_last_day tss r = ts_eq (r_timestamp r) (last tss)"

text \<open>Lines 127-135: the buy and the sell branch.\<close>

definition entry_flip :: "int \<Rightarrow> cell \<Rightarrow> sim_state \<Rightarrow> sim_state" where
  "entry_flip sg cl st =
     (if sg = 1 \<and> position st \<le> 0 then st\<lparr>position := 1, entry_price := cl\<rparr>
      else if sg = - 1 \<and> position st \<ge> 0 then st\<lparr>position := - 1, entry_price := cl\<rparr>
      else st)"

text \<open>Lines 138-145: closing the position on the last day.\<close>

definition close_out :: "bool \<Rightarrow> cell \<Rightarrow> sim_state \<Rightarrow> sim_state" where
  "close_out lastday cl st =
     (if lastday \<and> position st \<noteq> 0 then
        (let st1 =
           (if position st = 1
              then st\<lparr>balance := cell_add (balance st) (cell_sub cl (entry_price st))\<rparr>
            else if position st = - 1
              then st\<lparr>balance := cell_add (balance st) (cell_sub (entry_price st) cl)\<rparr>
            else st)
         in st1\<lparr>position := 0\<rparr>)
      else st)"

text \<open>Lines 122-145: the body of the loop after the balance check.\<close>

definition bar_step :: "tstamp list \<Rightarrow> row \<Rightarrow> sim_state \<Rightarrow> py_error + sim_state" where
  "bar_step tss r st =
     (let lastday = is_last_day tss r in
      case r_signal r of
        None \<Rightarrow> Inl KeyError
      | Some sg \<Rightarrow> Inr (close_out lastday (r_close r) (entry_flip sg (r_close r) st)))"

text \<open>
  Lines 117-145: the loop. \<^verbatim>\<open>break\<close> leaves it with the state as it is; an exception
  leaves it with the error.
\<close>

fun trade_loop :: "tstamp list \<Rightarrow> row list \<Rightarrow> sim_state \<Rightarrow> py_error + sim_state" where
  "trade_loop tss [] st = Inr st"
| "trade_loop tss (r # rs) st =
     (if cell_lt (balance st) (Some 1000) then Inr st
      else case bar_step tss r st of
             Inl e \<Rightarrow> Inl e
           | Inr st' \<Rightarrow> trade_loop tss rs st')"

definition init_state :: "cell \<Rightarrow> sim_state" where
  "init_state initial_balance =
     \<lparr> balance = initial_balance, position = 0, entry_price = Some 0 \<rparr>"

definition simulate_run :: "frame \<Rightarrow> cell \<Rightarrow> py_error + sim_state" where
  "simulate_run df initial_balance =
     trade_loop (map timestamp (bars df)) (iterrows df) (init_state initial_balance)"

definition simulate_trading :: "frame \<Rightarrow> cell \<Rightarrow> py_error + cell" where
  "simulate_trading df initial_balance =
     (case simulate_run df initial_balance of
        Inl e \<Rightarrow> Inl e
      | Inr st \<Rightarrow> Inr (balance st))"

section \<open>The quality check: \<^verbatim>\<open>verify_data_quality\<close>\<close>

text \<open>
  \<^verbatim>\<open>Series.duplicated()\<close>: an entry is marked when an equal entry stands before it
  (two NaT count as equal here).
\<close>

fun duplicated_from :: "'a list \<Rightarrow> 'a list \<Rightarrow> bool list" where
  "duplicated_from seen [] = []"
| "duplicated_from seen (x # xs) = (x \<in> set seen) # duplicated_from (x # seen) xs"









section \<open>The moving average: \<^verbatim>\<open>calculate_sma\<close>\<close>









section \<open>The signals: \<^verbatim>\<open>generate_signals\<close>\<close>

text \<open>
  A frame is a Python object: \<^verbatim>\<open>generate_signals\<close> assigns to a column of the frame it
  is given and returns that same object. The store maps a reference to the frame it
  denotes, and a function that assigns to a frame takes the store and returns it updated,
  also when it raises after a first assignment.
\<close>

type_synonym ref = nat
type_synonym store = "ref \<Rightarrow> frame"

text \<open>\<^verbatim>\<open>df[a] > df[b]\<close> for two of the moving-average columns.\<close>

definition column_gt :: "cell list option \<Rightarrow> cell list option \<Rightarrow> py_error + bool list" where
  "column_gt a b =
     (case a of None \<Rightarrow> Inl KeyError
      | Some xs \<Rightarrow> (case b of None \<Rightarrow> Inl KeyError
                    | Some ys \<Rightarrow> Inr (map2 cell_gt xs ys)))"

text \<open>\<^verbatim>\<open>df.loc[mask, 'signal'] = v\<close> on a frame that has the column.\<close>

definition loc_set_signal :: "bool list \<Rightarrow> int \<Rightarrow> frame \<Rightarrow> frame" where
  "loc_set_signal msk v df =
     df\<lparr>signal := map_option (map2 (\<lambda>m old. if m then v else old) msk) (signal df)\<rparr>"

definition generate_signals :: "store \<Rightarrow> ref \<Rightarrow> (py_error + ref) \<times> store" where
  "generate_signals s df =
     (let s1 = s(df := (s df)\<lparr>signal := Some (replicate (length (bars (s df))) 0)\<rparr>) in
      case column_gt (SMA_10 (s1 df)) (SMA_20 (s1 df)) of
        Inl e \<Rightarrow> (Inl e, s1)
      | Inr buy \<Rightarrow>
          (let s2 = s1(df := loc_set_signal buy 1 (s1 df)) in
           case column_gt (SMA_20 (s2 df)) (SMA_10 (s2 df)) of
             Inl e \<Rightarrow> (Inl e, s2)
           | Inr sell \<Rightarrow>
               (let s3 = s2(df := loc_set_signal sell (- 1) (s2 df)) in (Inr df, s3))))"

text \<open>
  The rule of the specification for one bar: Buy (1) when SMA10 > SMA20, Sell (-1) when
  SMA20 > SMA10, Flat (0) when they are equal or one of them is undefined.
\<close>

definition signal_rule :: "cell \<Rightarrow> cell \<Rightarrow> int" where
  "signal_rule sma10 sma20 =
     (case (sma10, sma20) of
        (Some x, Some y) \<Rightarrow> if x > y then 1 else if y > x then - 1 else 0
      | _ \<Rightarrow> 0)"

section \<open>The pipeline: \<^verbatim>\<open>main\<close>\<close>


section \<open>The metrics: \<^verbatim>\<open>calculate_pnl\<close> and \<^verbatim>\<open>calculate_cagr\<close>\<close>


definition calculate_pnl :: "real \<Rightarrow> real \<Rightarrow> real" where
  "calculate_pnl initial_balance final_balance = final_balance - initial_balance"






section \<open>Example frames\<close>

text \<open>
  A bar with the given timestamp whose open, high, low and close are the given price, and a
  frame of such bars with the given signal column.
\<close>

definition mk_bar :: "int \<Rightarrow> real \<Rightarrow> bar" where
  "mk_bar t c = \<lparr> timestamp = Some t, open_col = Some c, high = Some c, low = Some c,
                 close = Some c, volume = Some 1 \<rparr>"

definition mk_frame :: "(int \<times> real) list \<Rightarrow> int list option \<Rightarrow> frame" where
  "mk_frame tcs sg = \<lparr> bars = map (\<lambda>(t, c). mk_bar t c) tcs,
                       SMA_10 = None, SMA_20 = None, signal = sg \<rparr>"

text \<open>
  The scenario of the specification: closes 100, 110, 90 on three successive days with the
  signals Buy, Flat, Flat.
\<close>

definition long_frame :: frame where
  "long_frame = mk_frame [(1, 100), (2, 110), (3, 90)] (Some [1, 0, 0])"

text \<open>The same signals on a frame whose second bar carries the timestamp of the last bar.\<close>

definition dup_frame :: frame where
  "dup_frame = mk_frame [(1, 100), (3, 110), (3, 90)] (Some [1, 0, 0])"

text \<open>
  A store whose frames have four bars and both moving-average columns: the averages are
  undefined on the first bar, then SMA_10 is above, below and equal to SMA_20.
\<close>

definition sma_store :: store where
  "sma_store = (\<lambda>_. (mk_frame [(1, 100), (2, 110), (3, 90), (4, 95)] None)
       \<lparr>SMA_10 := Some [None, Some 105, Some 100, Some 98],
        SMA_20 := Some [None, Some 100, Some 102, Some 98]\<rparr>)"


section \<open>Properties of the backtest\<close>

lemma iterrows_Nil: "bars df = [] \<Longrightarrow> iterrows df = []"
  by (simp add: iterrows_def)

lemma trade_loop_floor:
  "cell_lt (balance st) (Some 1000) \<Longrightarrow> trade_loop tss rs st = Inr st"
  by (cases rs) simp_all

subsection \<open>One bar and the loop\<close>

lemma entry_flip_balance: "balance (entry_flip sg cl st) = balance st"
  by (simp add: entry_flip_def)

lemma close_out_False: "close_out False cl st = st"
  by (simp add: close_out_def)



lemma bar_step_not_last:
  "\<not> is_last_day tss r \<Longrightarrow> bar_step tss r st = Inr st' \<Longrightarrow> balance st' = balance st"
  by (auto simp: bar_step_def close_out_False entry_flip_balance split: option.splits)

lemma trade_loop_not_last:
  "\<forall>r \<in> set rs. \<not> is_last_day tss r \<Longrightarrow> trade_loop tss rs st = Inr st' \<Longrightarrow>
   balance st' = balance st"
proof (induction rs arbitrary: st)
  case Nil
  then show ?case by simp
next
  case (Cons r rs)
  show ?case
  proof (cases "cell_lt (balance st) (Some 1000)")
    case True
    with Cons.prems show ?thesis by simp
  next
    case False
    with Cons.prems obtain s1 where s1: "bar_step tss r st = Inr s1"
      and rest: "trade_loop tss rs s1 = Inr st'"
      by (auto split: sum.splits)
    from Cons.prems have "\<not> is_last_day tss r" by simp
    then have "balance s1 = balance st" using s1 by (rule bar_step_not_last)
    moreover from Cons.prems rest have "balance st' = balance s1"
      by (intro Cons.IH) auto
    ultimately show ?thesis by simp
  qed
qed



lemma sorted_wrt_ts_lt_last:
  "sorted_wrt ts_lt (xs @ [y]) \<Longrightarrow> x \<in> set xs \<Longrightarrow> \<not> ts_eq x y"
  by (cases x; cases y) (auto simp: sorted_wrt_append)

lemma strictly_increasing_butlast:
  assumes "strictly_increasing tss" and "x \<in> set (butlast tss)"
  shows "\<not> ts_eq x (last tss)"
proof -
  from assms(2) have ne: "tss \<noteq> []" by auto
  then have "tss = butlast tss @ [last tss]" by simp
  with assms(1) have "sorted_wrt ts_lt (butlast tss @ [last tss])"
    by (simp add: strictly_increasing_def)
  then show ?thesis using assms(2) by (rule sorted_wrt_ts_lt_last)
qed


lemma length_iterrows: "length (iterrows df) = length (bars df)"
  by (simp add: iterrows_def)


lemma timestamps_iterrows: "map r_timestamp (iterrows df) = map timestamp (bars df)"
  by (rule nth_equalityI) (simp_all add: iterrows_def)







lemma butlast_rows_not_last:
  assumes inc: "strictly_increasing (map timestamp (bars df))"
    and r: "r \<in> set (butlast (iterrows df))"
  shows "\<not> is_last_day (map timestamp (bars df)) r"
proof -
  from r have "r_timestamp r \<in> set (map r_timestamp (butlast (iterrows df)))" by simp
  then have "r_timestamp r \<in> set (butlast (map timestamp (bars df)))"
    by (simp only: map_butlast timestamps_iterrows)
  with inc show ?thesis
    unfolding is_last_day_def by (rule strictly_increasing_butlast)
qed




lemma take_rows_not_last:
  assumes inc: "strictly_increasing (map timestamp (bars df))"
    and k: "k < length (bars df)"
    and r: "r \<in> set (take k (iterrows df))"
  shows "\<not> is_last_day (map timestamp (bars df)) r"
proof -
  from k have "take k (butlast (iterrows df)) = take k (iterrows df)"
    by (simp add: take_butlast length_iterrows)
  with r have "r \<in> set (take k (butlast (iterrows df)))" by simp
  then have "r \<in> set (butlast (iterrows df))" by (rule in_set_takeD)
  with inc show ?thesis by (rule butlast_rows_not_last)
qed

subsection \<open>The claims about the backtest\<close>

text \<open>
  C3. \<^verbatim>\<open>simulate_trading\<close> returns the initial balance, and raises nothing, (1) when the
  frame has no rows and (2) when the initial balance is below 1000; in case (2) the loop
  stops at its first test, before it reads the signal of any row, so that even a frame
  without a signal column gives no \<^verbatim>\<open>KeyError\<close>.
\<close>

theorem simulate_trading_unchanged:
  "(bars df = [] \<longrightarrow> simulate_trading df b0 = Inr b0) \<and>
   (b < 1000 \<longrightarrow> simulate_trading df (Some b) = Inr (Some b) \<and>
                  simulate_run df (Some b) = Inr (init_state (Some b)))"
  by (simp add: simulate_trading_def simulate_run_def iterrows_Nil trade_loop_floor
      init_state_def)

theorem simulate_trading_unchanged_witness:
  "bars (mk_frame [] None) = [] \<and>
   simulate_trading (mk_frame [] None) (Some 5000) = Inr (Some 5000) \<and>
   (500::real) < 1000 \<and>
   simulate_trading (mk_frame [(1, 100)] None) (Some 500) = Inr (Some 500)"
  using simulate_trading_unchanged [of "mk_frame [] None" "Some 5000" 500]
    simulate_trading_unchanged [of "mk_frame [(1, 100)] None" "Some 5000" 500]
  by (simp add: mk_frame_def)



text \<open>
  C2, as amended. The buy and the sell branch never change the balance. A run over bars
  none of which carries the timestamp of the last row leaves the balance as it was; on a
  frame with strictly increasing timestamps these are all bars but the last, so the
  balance is still the initial balance after any number of bars short of all.
\<close>

theorem balance_constant_until_close_out:
  "balance (entry_flip sg cl st) = balance st
   \<and> ((\<forall>r \<in> set rs. \<not> is_last_day tss r) \<longrightarrow> trade_loop tss rs st = Inr st'
        \<longrightarrow> balance st' = balance st)
   \<and> (strictly_increasing (map timestamp (bars df)) \<longrightarrow> k < length (bars df)
        \<longrightarrow> trade_loop (map timestamp (bars df)) (take k (iterrows df)) (init_state b0) = Inr st''
        \<longrightarrow> balance st'' = b0)"
proof (intro conjI impI)
  show "balance (entry_flip sg cl st) = balance st" by (rule entry_flip_balance)
next
  assume "\<forall>r \<in> set rs. \<not> is_last_day tss r" and "trade_loop tss rs st = Inr st'"
  then show "balance st' = balance st" by (rule trade_loop_not_last)
next
  assume inc: "strictly_increasing (map timestamp (bars df))" and k: "k < length (bars df)"
    and run: "trade_loop (map timestamp (bars df)) (take k (iterrows df)) (init_state b0) = Inr st''"
  have "\<forall>r \<in> set (take k (iterrows df)). \<not> is_last_day (map timestamp (bars df)) r"
    using take_rows_not_last [OF inc k] by blast
  then have "balance st'' = balance (init_state b0)" using run by (rule trade_loop_not_last)
  then show "balance st'' = b0" by (simp add: init_state_def)
qed

theorem balance_constant_until_close_out_witness:
  "strictly_increasing (map timestamp (bars long_frame)) \<and> (2::nat) < length (bars long_frame)
   \<and> trade_loop (map timestamp (bars long_frame)) (take 2 (iterrows long_frame))
        (init_state (Some 5000))
      = Inr \<lparr> balance = Some 5000, position = 1, entry_price = Some 100 \<rparr>
   \<and> balance \<lparr> balance = Some 5000, position = 1, entry_price = Some 100 \<rparr> = Some 5000"
proof -
  have inc: "strictly_increasing (map timestamp (bars long_frame))"
    by (simp add: long_frame_def mk_frame_def mk_bar_def strictly_increasing_def)
  have k: "(2::nat) < length (bars long_frame)" by (simp add: long_frame_def mk_frame_def)
  have run: "trade_loop (map timestamp (bars long_frame)) (take 2 (iterrows long_frame))
        (init_state (Some 5000))
      = Inr \<lparr> balance = Some 5000, position = 1, entry_price = Some 100 \<rparr>"
    by (simp add: long_frame_def iterrows_def mk_frame_def mk_bar_def init_state_def
        bar_step_def is_last_day_def entry_flip_def close_out_def upt_rec)
  from balance_constant_until_close_out
    [of _ _ _ "[]" _ _ long_frame 2 "Some 5000"
       "\<lparr> balance = Some 5000, position = 1, entry_price = Some 100 \<rparr>"]
    inc k run
  have "balance \<lparr> balance = Some 5000, position = 1, entry_price = Some 100 \<rparr> = Some 5000"
    by blast
  with inc k run show ?thesis by blast
qed

text \<open>
  C2 as stated fails: on \<open>dup_frame\<close> the second of the three bars carries the timestamp
  of the last one, the long position is closed there, and the balance is 5010 after two
  bars, before the last bar is reached.
\<close>

theorem balance_changes_before_last_bar:
  "trade_loop (map timestamp (bars dup_frame)) (take 2 (iterrows dup_frame)) (init_state (Some 5000))
     = Inr \<lparr> balance = Some 5010, position = 0, entry_price = Some 100 \<rparr>
   \<and> simulate_trading dup_frame (Some 5000) = Inr (Some 5010)"
  by (simp add: dup_frame_def simulate_trading_def simulate_run_def iterrows_def mk_frame_def
      mk_bar_def init_state_def bar_step_def is_last_day_def entry_flip_def close_out_def upt_rec)



section \<open>Properties of the moving average\<close>


















section \<open>Properties of the signals\<close>

lemma signal_steps_nth:
  "(if cell_gt y x then - 1 else if cell_gt x y then 1 else (0::int)) = signal_rule x y"
  by (cases x; cases y) (auto simp: signal_rule_def)

lemma signal_steps:
  assumes a: "length a = n" and b: "length b = n"
  shows "map2 (\<lambda>m old. if m then - 1 else old) (map2 cell_gt b a)
           (map2 (\<lambda>m old. if m then 1 else old) (map2 cell_gt a b) (replicate n (0::int)))
         = map2 signal_rule a b"
proof (rule nth_equalityI)
  show "length (map2 (\<lambda>m old. if m then - 1 else old) (map2 cell_gt b a)
           (map2 (\<lambda>m old. if m then 1 else old) (map2 cell_gt a b) (replicate n (0::int))))
        = length (map2 signal_rule a b)"
    using a b by simp
next
  fix i
  assume "i < length (map2 (\<lambda>m old. if m then - 1 else old) (map2 cell_gt b a)
           (map2 (\<lambda>m old. if m then 1 else old) (map2 cell_gt a b) (replicate n (0::int))))"
  then have i: "i < n" using a b by simp
  with a b show "map2 (\<lambda>m old. if m then - 1 else old) (map2 cell_gt b a)
           (map2 (\<lambda>m old. if m then 1 else old) (map2 cell_gt a b) (replicate n (0::int))) ! i
         = map2 signal_rule a b ! i"
    by (simp add: signal_steps_nth)
qed

lemma generate_signals_result:
  assumes a: "SMA_10 (s r) = Some a" and b: "SMA_20 (s r) = Some b"
    and la: "length a = length (bars (s r))" and lb: "length b = length (bars (s r))"
  shows "generate_signals s r = (Inr r, s(r := (s r)\<lparr>signal := Some (map2 signal_rule a b)\<rparr>))"
  using a b signal_steps [OF la lb]
  by (simp add: generate_signals_def column_gt_def loc_set_signal_def Let_def)

lemma signal_rule_cases:
  "(signal_rule x y = 1 \<longleftrightarrow> (\<exists>u v. x = Some u \<and> y = Some v \<and> u > v))
   \<and> (signal_rule x y = - 1 \<longleftrightarrow> (\<exists>u v. x = Some u \<and> y = Some v \<and> v > u))
   \<and> (signal_rule x y = 0 \<longleftrightarrow> x = None \<or> y = None \<or> x = y)
   \<and> signal_rule x y \<in> {- 1, 0, 1}"
  by (cases x; cases y) (auto simp: signal_rule_def)

text \<open>
C7. On a frame that has both moving-average columns, \<^verbatim>\<open>generate_signals\<close> returns the
  frame it was given, with a signal column that has one entry per bar; the entry of bar
  \<open>i\<close> is the rule applied to the two averages of that bar alone: 1 exactly when both are
  defined and SMA_10 > SMA_20, -1 exactly when both are defined and SMA_20 > SMA_10, and 0
  exactly when one of them is undefined or they are equal.
\<close>

theorem signals_follow_rule:
  assumes a: "SMA_10 (s r) = Some a" and b: "SMA_20 (s r) = Some b"
    and la: "length a = length (bars (s r))" and lb: "length b = length (bars (s r))"
  shows "fst (generate_signals s r) = Inr r
    \<and> (\<exists>sg. signal (snd (generate_signals s r) r) = Some sg
          \<and> length sg = length (bars (s r))
          \<and> (\<forall>i < length (bars (s r)).
                sg ! i = signal_rule (a ! i) (b ! i)
              \<and> (sg ! i = 1 \<longleftrightarrow> (\<exists>u v. a ! i = Some u \<and> b ! i = Some v \<and> u > v))
              \<and> (sg ! i = - 1 \<longleftrightarrow> (\<exists>u v. a ! i = Some u \<and> b ! i = Some v \<and> v > u))
              \<and> (sg ! i = 0 \<longleftrightarrow> a ! i = None \<or> b ! i = None \<or> a ! i = b ! i)))"
proof -
  let ?sg = "map2 signal_rule a b"
  have res: "generate_signals s r = (Inr r, s(r := (s r)\<lparr>signal := Some ?sg\<rparr>))"
    using a b la lb by (rule generate_signals_result)
  have len: "length ?sg = length (bars (s r))" using la lb by simp
  have nth: "?sg ! i = signal_rule (a ! i) (b ! i)" if "i < length (bars (s r))" for i
    using that la lb by simp
  have "\<forall>i < length (bars (s r)).
                ?sg ! i = signal_rule (a ! i) (b ! i)
              \<and> (?sg ! i = 1 \<longleftrightarrow> (\<exists>u v. a ! i = Some u \<and> b ! i = Some v \<and> u > v))
              \<and> (?sg ! i = - 1 \<longleftrightarrow> (\<exists>u v. a ! i = Some u \<and> b ! i = Some v \<and> v > u))
              \<and> (?sg ! i = 0 \<longleftrightarrow> a ! i = None \<or> b ! i = None \<or> a ! i = b ! i)"
  proof (intro allI impI)
    fix i assume "i < length (bars (s r))"
    then show "?sg ! i = signal_rule (a ! i) (b ! i)
              \<and> (?sg ! i = 1 \<longleftrightarrow> (\<exists>u v. a ! i = Some u \<and> b ! i = Some v \<and> u > v))
              \<and> (?sg ! i = - 1 \<longleftrightarrow> (\<exists>u v. a ! i = Some u \<and> b ! i = Some v \<and> v > u))
              \<and> (?sg ! i = 0 \<longleftrightarrow> a ! i = None \<or> b ! i = None \<or> a ! i = b ! i)"
      using signal_rule_cases [of "a ! i" "b ! i"] by (simp only: nth)
  qed
  moreover have "signal (snd (generate_signals s r) r) = Some ?sg" by (simp add: res)
  moreover have "fst (generate_signals s r) = Inr r" by (simp add: res)
  ultimately show ?thesis using len by blast
qed

theorem signals_follow_rule_witness:
  "SMA_10 (sma_store 0) = Some [None, Some 105, Some 100, Some 98]
   \<and> SMA_20 (sma_store 0) = Some [None, Some 100, Some 102, Some 98]
   \<and> fst (generate_signals sma_store 0) = Inr 0
   \<and> signal (snd (generate_signals sma_store 0) 0) = Some [0, 1, - 1, 0]"
proof -
  have a: "SMA_10 (sma_store 0) = Some [None, Some 105, Some 100, Some 98]"
    and b: "SMA_20 (sma_store 0) = Some [None, Some 100, Some 102, Some 98]"
    and la: "length [None, Some 105, Some 100, Some (98::real)] = length (bars (sma_store 0))"
    and lb: "length [None, Some 100, Some 102, Some (98::real)] = length (bars (sma_store 0))"
    by (simp_all add: sma_store_def mk_frame_def)
  from signals_follow_rule [of sma_store 0, OF a b la lb] obtain sg where
    r: "fst (generate_signals sma_store 0) = Inr 0"
    and sg: "signal (snd (generate_signals sma_store 0) 0) = Some sg"
    and len: "length sg = length (bars (sma_store 0))"
    and nth: "\<forall>i < length (bars (sma_store 0)).
       sg ! i = signal_rule ([None, Some 105, Some 100, Some 98] ! i)
                  ([None, Some 100, Some 102, Some 98] ! i)"
    by blast
  have n: "length (bars (sma_store 0)) = 4" by (simp add: sma_store_def mk_frame_def)
  from nth n have "sg ! 0 = 0" "sg ! 1 = 1" "sg ! 2 = - 1" "sg ! 3 = 0"
    by (simp_all add: signal_rule_def)
  with len n have "sg = [0, 1, - 1, 0]"
    by (intro nth_equalityI) (auto simp: less_Suc_eq numeral_eq_Suc)
  with a b r sg show ?thesis by simp
qed

section \<open>Properties of the quality check\<close>

lemma length_duplicated_from: "length (duplicated_from seen xs) = length xs"
  by (induction xs arbitrary: seen) simp_all











section \<open>Properties of the pipeline\<close>








section \<open>Properties of the metrics and of the input checks\<close>












end
